theory Spec2Isabelle
  imports Main "HOL-Library.AList"
begin

section \<open>The MVN Animate device of plugin\_mvnanimate.py\<close>

text \<open>
  A shallow embedding of class \<open>DeviceMVNAnimate\<close>. The object \<open>self\<close> is a record that
  every method takes and returns; a method that can raise returns the outcome beside the
  state, because an assignment made before a raise stays made. What the methods do to the
  world outside the object (the logger, the operating system, the host application) is
  recorded in two traces, \<open>logged\<close> and \<open>effects\<close>, oldest entry first.
\<close>

subsection \<open>Values\<close>

type_synonym bytes = string

text \<open>
  A \<open>datetime\<close> is a count of microseconds, the resolution of Python's \<open>datetime\<close>; the
  difference of two is a \<open>timedelta\<close>, and \<open>total_seconds() > 3.0\<close> is the comparison of that
  count with three million.
\<close>

type_synonym datetime = int

datatype element = Elem (tag: string) (attrib: "(string \<times> string) list") (children: "element list")

text \<open>\<open>Element(tag)\<close>: no attribute, no child.\<close>

definition Element :: "string \<Rightarrow> element" where
  "Element t = Elem t [] []"

text \<open>\<open>elem.set(key, val)\<close>: the attributes are a dict, which keeps a key's first position.\<close>

definition set_attrib :: "string \<Rightarrow> string \<Rightarrow> element \<Rightarrow> element" where
  "set_attrib key val elem =
     Elem (tag elem)
       (if key \<in> fst ` set (attrib elem) then AList.update key val (attrib elem)
        else attrib elem @ [(key, val)])
       (children elem)"

text \<open>\<open>elem.append(sub)\<close>.\<close>

definition append_child :: "element \<Rightarrow> element \<Rightarrow> element" where
  "append_child sub elem = Elem (tag elem) (attrib elem) (children elem @ [sub])"

datatype exn =
    ParseError
  | NameError string
  | TypeError string
  | IndexError
  | Exception string
  | OSError string
  | RuntimeError string
  | LookupError string
  | ValueError string
  | NotImplementedError

datatype outcome = Returned | Raised exn

text \<open>
  The two functions of \<open>xml.etree.ElementTree\<close> that the module imports and calls. They are
  library code, so every method that calls them takes them as a parameter.
\<close>

record etree =
  tostring :: "element \<Rightarrow> bytes"
  fromstring :: "bytes \<Rightarrow> exn + element"

subsection \<open>Traces\<close>

datatype level = WARNING | ERROR

text \<open>One constructor for each \<open>LOGGER\<close> call of the class, with the data it formats.\<close>

datatype log_message =
    XML_string "(string \<times> string) list"
  | MVN_identify_response bytes
  | Disconnecting_due_to exn
  | Could_not_parse bytes
  | Could_not_find_callback
  | MVN_set_take element
  | MVN_take_was_set bytes
  | Starting_MVN_recording
  | MVN_recording_data "(string \<times> string) list"
  | Stopping_MVN_recording

type_synonym sock = nat
type_synonym thread = nat

text \<open>\<open>DeviceStatus\<close> is declared in \<open>switchboard.devices.device_base\<close>; the class names one member.\<close>

datatype DeviceStatus = READY

text \<open>
  Calls that leave the object: to the operating system (sockets, threads), to the base class
  \<open>Device\<close> and to the host's signal handler.
\<close>

datatype effect =
    Socket_opened sock
  | Socket_bound sock
  | Thread_started thread
  | Flushed sock
  | Sent sock bytes
  | Socket_closed sock
  | Status_set DeviceStatus
  | Record_start_confirm string
  | Record_stop_confirm string "string list option"
  | Client_disconnected

subsection \<open>The object\<close>

text \<open>
  The attributes \<open>__init__\<close> assigns, but for \<open>client\<close>, which no method reads, and the
  callback table, which is the constant \<open>command_response_callbacks\<close> below. \<open>_slate\<close> and
  \<open>_take\<close> are \<open>d_slate\<close> and \<open>d_take\<close>. The attributes of the base class \<open>Device\<close> (name,
  address, status, settings) are not part of the record: a write to them is an entry of
  \<open>effects\<close>, a read is a parameter of the method.
\<close>

record device =
  trigger_start :: bool
  trigger_stop :: bool
  d_slate :: string
  d_take :: int
  message_queue :: "bytes list"
  socket :: "sock option"
  close_socket :: bool
  last_activity :: datetime
  awaiting_echo_response :: bool
  mvn_connection_thread :: "thread option"
  logged :: "(level \<times> log_message) list"
  effects :: "effect list"

text \<open>\<open>__init__\<close>, with the clock's reading as \<open>now\<close>.\<close>

definition init :: "datetime \<Rightarrow> device" where
  "init now =
     \<lparr> trigger_start = True, trigger_stop = True,
       d_slate = ''slate'', d_take = 1,
       message_queue = [],
       socket = None, close_socket = False,
       last_activity = now,
       awaiting_echo_response = False,
       mvn_connection_thread = None,
       logged = [], effects = [] \<rparr>"

definition LOGGER :: "level \<Rightarrow> log_message \<Rightarrow> device \<Rightarrow> device" where
  "LOGGER lv m self = self\<lparr>logged := logged self @ [(lv, m)]\<rparr>"

definition emit :: "effect \<Rightarrow> device \<Rightarrow> device" where
  "emit ev self = self\<lparr>effects := effects self @ [ev]\<rparr>"

subsection \<open>The outbound queue\<close>

text \<open>
  \<open>message_queue\<close> is a \<open>collections.deque\<close>; the list's head is the deque's left end.
  \<open>appendleft\<close> adds at the left, \<open>pop\<close> takes from the right and raises on an empty deque.
\<close>

definition deque_appendleft :: "'a \<Rightarrow> 'a list \<Rightarrow> 'a list" where
  "deque_appendleft x q = x # q"

definition deque_pop :: "'a list \<Rightarrow> exn + ('a \<times> 'a list)" where
  "deque_pop q = (if q = [] then Inl IndexError else Inr (last q, butlast q))"

definition send_string_to_mvn :: "bytes \<Rightarrow> device \<Rightarrow> device" where
  "send_string_to_mvn data self =
     self\<lparr>message_queue := deque_appendleft data (message_queue self)\<rparr>"

text \<open>
  The session loop's drain, \<open>if len(self.message_queue): message_str = self.message_queue.pop()\<close>:
  the message taken, if any, and the object afterwards.
\<close>

definition pop_message :: "device \<Rightarrow> (exn + bytes option) \<times> device" where
  "pop_message self =
     (if length (message_queue self) \<noteq> 0 then
        (case deque_pop (message_queue self) of
           Inl e \<Rightarrow> (Inl e, self)
         | Inr (message_str, q) \<Rightarrow> (Inr (Some message_str), self\<lparr>message_queue := q\<rparr>))
      else (Inr None, self))"

text \<open>
  A schedule of pushes (by callers of \<open>send_string_to_mvn\<close>) and drains (by the session loop),
  run from a given object: the messages the drains took, in the order taken, and the object
  at the end. A drain that finds the queue empty takes nothing.
\<close>

datatype queue_op = Push bytes | Pop

fun pushed :: "queue_op list \<Rightarrow> bytes list" where
  "pushed [] = []"
| "pushed (Push m # ops) = m # pushed ops"
| "pushed (Pop # ops) = pushed ops"

fun queue_run :: "queue_op list \<Rightarrow> device \<Rightarrow> bytes list \<times> device" where
  "queue_run [] self = ([], self)"
| "queue_run (Push m # ops) self = queue_run ops (send_string_to_mvn m self)"
| "queue_run (Pop # ops) self =
     (case pop_message self of
        (Inr (Some m), s) \<Rightarrow> (m # fst (queue_run ops s), snd (queue_run ops s))
      | (_, s) \<Rightarrow> queue_run ops s)"

text \<open>
  How many of a schedule's drains find a message waiting, when \<open>n\<close> messages wait at its
  start.
\<close>

fun taken :: "queue_op list \<Rightarrow> nat \<Rightarrow> nat" where
  "taken [] n = 0"
| "taken (Push m # ops) n = taken ops (Suc n)"
| "taken (Pop # ops) n = (if n = 0 then taken ops 0 else Suc (taken ops (n - 1)))"

subsection \<open>Names\<close>

text \<open>
  A name that a method reads and never binds is looked up, when the statement runs, in the
  module's globals and then in the builtins; found in neither, the read raises \<open>NameError\<close>.
  \<open>module_globals\<close> are the names the module binds (its imports and its two classes),
  \<open>builtins\<close> the builtin names it uses.
\<close>

definition module_globals :: "string list" where
  "module_globals =
     [''deque'', ''datetime'', ''select'', ''socket'', ''struct'', ''Thread'', ''time'',
      ''Element'', ''tostring'', ''fromstring'', ''ParseError'',
      ''IntSetting'', ''DirectoryPathSetting'', ''Device'', ''DeviceStatus'', ''DeviceWidget'',
      ''LOGGER'', ''utils'', ''DeviceMVNAnimate'', ''DeviceWidgetMVNAnimate'']"

definition builtins :: "string list" where
  "builtins = [''len'', ''str'', ''super'', ''property'', ''staticmethod'', ''Exception'']"

definition unbound :: "string list \<Rightarrow> string \<Rightarrow> bool" where
  "unbound local_names n =
     (n \<notin> set local_names \<and> n \<notin> set module_globals \<and> n \<notin> set builtins)"

text \<open>The first of the names a statement reads, in evaluation order, that is bound nowhere.\<close>

definition first_unbound :: "string list \<Rightarrow> string list \<Rightarrow> string option" where
  "first_unbound local_names reads = find (unbound local_names) reads"

subsection \<open>Requests\<close>

definition send_request_to_mvn ::
  "etree \<Rightarrow> string \<Rightarrow> (string \<times> string) list \<Rightarrow> device \<Rightarrow> device" where
  "send_request_to_mvn lib message_type data self =
     (let elem = fold (\<lambda>(key, val). set_attrib key val) data (Element message_type);
          message_str = tostring lib elem
      in send_string_to_mvn message_str (LOGGER WARNING (XML_string data) self))"

definition send_identify_request :: "etree \<Rightarrow> device \<Rightarrow> device" where
  "send_identify_request lib self =
     (if awaiting_echo_response self then self
      else send_request_to_mvn lib ''IdentifyReq'' [] (self\<lparr>awaiting_echo_response := True\<rparr>))"

definition is_connected :: "device \<Rightarrow> bool" where
  "is_connected self = (socket self \<noteq> None)"

text \<open>
  \<open>set_take\<close>. Line 223 reads \<open>state_elem\<close> and \<open>value\<close>, line 227 reads \<open>value\<close> again, and
  line 231 calls \<open>send_string_to_mvn\<close>, a method of one parameter, with two arguments.
\<close>

definition set_take :: "string \<Rightarrow> int \<Rightarrow> device \<Rightarrow> outcome \<times> device" where
  "set_take take_name take_num self =
     (let local_names =
            [''self'', ''take_name'', ''take_num'', ''msg_elem'', ''slate_elem'', ''take_elem''];
          s = self\<lparr>d_slate := take_name, d_take := take_num\<rparr>;
          msg_elem = Element ''CaptureName'';
          slate_elem = Element ''Name''
      in case first_unbound local_names [''state_elem'', ''value''] of
           Some n \<Rightarrow> (Raised (NameError n), s)
         | None \<Rightarrow>
             (let msg_elem = append_child slate_elem msg_elem;
                  take_elem = Element ''Take''
              in case first_unbound local_names [''value''] of
                   Some n \<Rightarrow> (Raised (NameError n), s)
                 | None \<Rightarrow>
                     (Raised (TypeError
                        ''send_string_to_mvn() takes 2 positional arguments but 3 were given''),
                      LOGGER WARNING (MVN_set_take (append_child take_elem msg_elem)) s)))"

text \<open>
  \<open>record_start\<close> and \<open>record_stop\<close>. \<open>is_disconnected\<close> is a property of the base class
  \<open>Device\<close>: its value at the call is a parameter.
\<close>

definition record_start ::
  "etree \<Rightarrow> bool \<Rightarrow> string \<Rightarrow> int \<Rightarrow> string \<Rightarrow> device \<Rightarrow> device" where
  "record_start lib is_disconnected slate take_num description self =
     (let s = LOGGER WARNING Starting_MVN_recording self in
      if is_disconnected \<or> \<not> trigger_start s then s
      else
        (let recording_req_data = [(''SessionName'', slate), (''Description'', description)]
         in send_request_to_mvn lib ''StartRecordingReq'' recording_req_data
              (LOGGER WARNING (MVN_recording_data recording_req_data) s)))"

definition record_stop :: "etree \<Rightarrow> bool \<Rightarrow> device \<Rightarrow> device" where
  "record_stop lib is_disconnected self =
     (let s = LOGGER WARNING Stopping_MVN_recording self in
      if is_disconnected \<or> \<not> trigger_stop s then s
      else send_request_to_mvn lib ''StopRecordingReq'' [] s)"

subsection \<open>Responses\<close>

definition timecode :: "device \<Rightarrow> string" where
  "timecode self = ''00:00:00:00''"

definition on_mvn_identify_response :: "etree \<Rightarrow> element \<Rightarrow> device \<Rightarrow> device" where
  "on_mvn_identify_response lib response self =
     LOGGER WARNING (MVN_identify_response (tostring lib response))
       (emit (Status_set READY) (self\<lparr>awaiting_echo_response := False\<rparr>))"

definition on_mvn_recording_started :: "element \<Rightarrow> device \<Rightarrow> device" where
  "on_mvn_recording_started response self = emit (Record_start_confirm (timecode self)) self"

definition on_mvn_recording_stopped :: "element \<Rightarrow> device \<Rightarrow> device" where
  "on_mvn_recording_stopped response self = emit (Record_stop_confirm (timecode self) None) self"

definition on_mvn_record_take_name_set :: "etree \<Rightarrow> element \<Rightarrow> device \<Rightarrow> device" where
  "on_mvn_record_take_name_set lib response self =
     LOGGER WARNING (MVN_take_was_set (tostring lib response)) self"

definition command_response_callbacks ::
  "etree \<Rightarrow> (string \<times> (element \<Rightarrow> device \<Rightarrow> device)) list" where
  "command_response_callbacks lib =
     [(''IdentifyAck'', on_mvn_identify_response lib),
      (''StartRecordingAck'', on_mvn_recording_started),
      (''StopRecordingAck'', on_mvn_recording_stopped),
      (''CaptureNameAck'', on_mvn_record_take_name_set lib)]"

text \<open>
  \<open>process_message\<close>, with the clock's reading as \<open>now\<close>. Only \<open>ParseError\<close> is caught. The
  \<open>else\<close> branch formats its message from \<open>self.name\<close> and \<open>cmd_name\<close> before it logs.
\<close>

definition process_message :: "etree \<Rightarrow> datetime \<Rightarrow> bytes \<Rightarrow> device \<Rightarrow> outcome \<times> device" where
  "process_message lib now data self =
     (let s = self\<lparr>last_activity := now\<rparr> in
      case fromstring lib data of
        Inl e \<Rightarrow>
          (if e = ParseError then (Returned, LOGGER ERROR (Could_not_parse data) s)
           else (Raised e, s))
      | Inr msg_elem \<Rightarrow>
          (case map_of (command_response_callbacks lib) (tag msg_elem) of
             Some callback \<Rightarrow> (Returned, callback msg_elem s)
           | None \<Rightarrow>
               (case first_unbound [''self'', ''data'', ''msg_elem'', ''e''] [''cmd_name''] of
                  Some n \<Rightarrow> (Raised (NameError n), s)
                | None \<Rightarrow> (Returned, LOGGER ERROR Could_not_find_callback s))))"

subsection \<open>Connecting\<close>

text \<open>What the operating system answers to the calls of \<open>connect_listener\<close>.\<close>

record os_connect =
  socket_socket :: "exn + sock"
  socket_bind :: "exn option"
  new_Thread :: thread
  Thread_start :: "exn option"

definition connect_listener ::
  "etree \<Rightarrow> os_connect \<Rightarrow> datetime \<Rightarrow> device \<Rightarrow> outcome \<times> device" where
  "connect_listener lib os now self =
     (let s0 = self\<lparr>close_socket := False\<rparr> in
      case socket_socket os of
        Inl e \<Rightarrow> (Raised e, s0)
      | Inr fd \<Rightarrow>
          (let s1 = emit (Socket_opened fd) (s0\<lparr>socket := Some fd\<rparr>) in
           case socket_bind os of
             Some e \<Rightarrow> (Raised e, s1)
           | None \<Rightarrow>
               (let s2 = (emit (Socket_bound fd) s1)
                           \<lparr>last_activity := now, mvn_connection_thread := Some (new_Thread os)\<rparr>
                in case Thread_start os of
                     Some e \<Rightarrow> (Raised e, s2)
                   | None \<Rightarrow>
                       (Returned,
                        send_identify_request lib
                          ((emit (Thread_started (new_Thread os)) s2)
                             \<lparr>awaiting_echo_response := False\<rparr>)))))"

subsection \<open>The session loop\<close>

definition ping_interval :: int where
  "ping_interval = 1000000"

definition disconnect_timeout :: int where
  "disconnect_timeout = 3000000"

text \<open>
  What one iteration of the loop meets: the errors the socket calls raise, whether \<open>select\<close>
  finds the socket readable within the read timeout, what \<open>recv\<close> returns, and the clock's
  readings in \<open>process_message\<close> and at line 160.
\<close>

record loop_io =
  flush_error :: "exn option"
  sendto_error :: "exn option"
  select_result :: "exn + bool"
  recv_result :: "exn + bytes"
  process_now :: datetime
  activity_now :: datetime
  shutdown_close_error :: "exn option"

text \<open>Lines 143 to 158.\<close>

definition send_and_receive :: "etree \<Rightarrow> loop_io \<Rightarrow> sock \<Rightarrow> device \<Rightarrow> outcome \<times> device" where
  "send_and_receive lib io fd self =
     (case pop_message self of
        (Inl e, s) \<Rightarrow> (Raised e, s)
      | (Inr None, s) \<Rightarrow> (Returned, s)
      | (Inr (Some message_str), s) \<Rightarrow>
          (case flush_error io of
             Some e \<Rightarrow> (Raised e, s)
           | None \<Rightarrow>
               (case sendto_error io of
                  Some e \<Rightarrow> (Raised e, emit (Flushed fd) s)
                | None \<Rightarrow>
                    (let s2 = emit (Sent fd message_str) (emit (Flushed fd) s) in
                     case select_result io of
                       Inl e \<Rightarrow> (Raised e, s2)
                     | Inr readable \<Rightarrow>
                         (if readable then
                            (case recv_result io of
                               Inl e \<Rightarrow> (Raised e, s2)
                             | Inr received_data \<Rightarrow>
                                 process_message lib (process_now io) received_data s2)
                          else (Returned, s2))))))"

text \<open>Lines 160 to 165.\<close>

definition check_activity :: "etree \<Rightarrow> datetime \<Rightarrow> device \<Rightarrow> outcome \<times> device" where
  "check_activity lib now self =
     (let activity_delta = now - last_activity self in
      if activity_delta > disconnect_timeout then (Raised (Exception ''Connection timeout''), self)
      else if activity_delta > ping_interval then (Returned, send_identify_request lib self)
      else (Returned, self))"

text \<open>Lines 167 to 171; the flag says whether \<open>break\<close> was reached.\<close>

definition close_if_requested :: "loop_io \<Rightarrow> sock \<Rightarrow> device \<Rightarrow> (outcome \<times> bool) \<times> device" where
  "close_if_requested io fd self =
     (if close_socket self \<and> length (message_queue self) = 0 then
        (case shutdown_close_error io of
           Some e \<Rightarrow> ((Raised e, False), self)
         | None \<Rightarrow> ((Returned, True), (emit (Socket_closed fd) self)\<lparr>socket := None\<rparr>))
      else ((Returned, False), self))"

text \<open>Lines 173 to 177.\<close>

definition except_handler :: "exn \<Rightarrow> device \<Rightarrow> device" where
  "except_handler e self =
     emit Client_disconnected (LOGGER WARNING (Disconnecting_due_to e) self)"

datatype loop_next = Next_iteration | Loop_exit

text \<open>The body of the \<open>while\<close> loop, run on an object that holds the socket \<open>fd\<close>.\<close>

definition loop_body :: "etree \<Rightarrow> loop_io \<Rightarrow> sock \<Rightarrow> device \<Rightarrow> loop_next \<times> device" where
  "loop_body lib io fd self =
     (case send_and_receive lib io fd self of
        (Raised e, s) \<Rightarrow> (Loop_exit, except_handler e s)
      | (Returned, s1) \<Rightarrow>
          (case check_activity lib (activity_now io) s1 of
             (Raised e, s) \<Rightarrow> (Loop_exit, except_handler e s)
           | (Returned, s2) \<Rightarrow>
               (case close_if_requested io fd s2 of
                  ((Raised e, b), s) \<Rightarrow> (Loop_exit, except_handler e s)
                | ((Returned, b), s) \<Rightarrow> (if b then Loop_exit else Next_iteration, s))))"

text \<open>
  \<open>mvn_connection\<close>, run for as many iterations as there are inputs: whether the procedure
  has returned, and the object.
\<close>

fun mvn_connection :: "etree \<Rightarrow> loop_io list \<Rightarrow> device \<Rightarrow> bool \<times> device" where
  "mvn_connection lib [] self = (\<not> is_connected self, self)"
| "mvn_connection lib (io # ios) self =
     (case socket self of
        None \<Rightarrow> (True, self)
      | Some fd \<Rightarrow>
          (case loop_body lib io fd self of
             (Loop_exit, s) \<Rightarrow> (True, s)
           | (Next_iteration, s) \<Rightarrow> mvn_connection lib ios s))"

subsection \<open>An instance of the library\<close>

text \<open>
  An instance of \<open>etree\<close> to run the methods on. \<open>tostring_xml\<close> writes an element whose names
  and values are ASCII the way \<open>ElementTree\<close> does.
\<close>

fun escape_attrib :: "string \<Rightarrow> string" where
  "escape_attrib [] = []"
| "escape_attrib (c # cs) =
     (if c = CHR ''&'' then ''&amp;''
      else if c = CHR ''<'' then ''&lt;''
      else if c = CHR ''>'' then ''&gt;''
      else if c = CHR 0x22 then ''&quot;''
      else if c = CHR 0x0D then ''&#13;''
      else if c = CHR 0x0A then ''&#10;''
      else if c = CHR 0x09 then ''&#09;''
      else [c]) @ escape_attrib cs"

fun tostring_xml :: "element \<Rightarrow> bytes" where
  "tostring_xml (Elem t kvs cs) =
     ''<'' @ t
       @ concat (map (\<lambda>(k, v). '' '' @ k @ ''='' @ [CHR 0x22] @ escape_attrib v @ [CHR 0x22]) kvs)
       @ (if cs = [] then '' />''
          else ''>'' @ concat (map tostring_xml cs) @ ''</'' @ t @ ''>'')"

text \<open>
  \<open>fromstring_fragment\<close> reads the datagrams written with letters, digits, the space and the
  characters \<open>. _ - < > / =\<close> and the double quote, with or without one of the XML declarations
  listed in \<open>declarations\<close> in front: elements with attributes and nested elements; character
  data is passed over, as the record of an element keeps none. On these datagrams it answers
  as \<open>xml.etree.ElementTree.fromstring\<close> does, \<open>ParseError\<close> to what is not well formed and
  \<open>LookupError\<close> or \<open>ValueError\<close> to a declaration of an encoding that Python does not know
  or that has several bytes to the character. Every other datagram (another character, a
  question mark elsewhere, a namespace declaration) is not implemented:
  \<open>NotImplementedError\<close> marks it.
\<close>

definition quote :: char where
  "quote = CHR 0x22"

definition letters :: string where
  "letters = ''abcdefghijklmnopqrstuvwxyzABCDEFGHIJKLMNOPQRSTUVWXYZ''"

definition name_chars :: string where
  "name_chars = letters @ ''0123456789._-''"

definition fragment_chars :: string where
  "fragment_chars = name_chars @ '' <>/=?'' @ [quote]"

text \<open>A name starts with a letter or an underscore.\<close>

definition valid_name :: "string \<Rightarrow> bool" where
  "valid_name n = (case n of [] \<Rightarrow> False | c # cs \<Rightarrow> c \<in> set letters \<or> c = CHR ''_'')"

text \<open>
  The datagram cut into character data and tags. A tag runs from \<open><\<close> to the next \<open>>\<close>
  outside a quoted value; a \<open><\<close> inside a tag, or the end of the datagram there, is an error.
\<close>

datatype item = Text string | Tag string

datatype markup_mode = Outside | In_tag | In_quote

fun markup :: "markup_mode \<Rightarrow> string \<Rightarrow> string \<Rightarrow> item list option" where
  "markup m acc [] = (if m = Outside then Some [Text acc] else None)"
| "markup Outside acc (c # cs) =
     (if c = CHR ''<'' then map_option (Cons (Text acc)) (markup In_tag [] cs)
      else markup Outside (acc @ [c]) cs)"
| "markup In_tag acc (c # cs) =
     (if c = CHR ''<'' then None
      else if c = CHR ''>'' then map_option (Cons (Tag acc)) (markup Outside [] cs)
      else if c = quote then markup In_quote (acc @ [c]) cs
      else markup In_tag (acc @ [c]) cs)"
| "markup In_quote acc (c # cs) =
     (if c = CHR ''<'' then None
      else if c = quote then markup In_tag (acc @ [c]) cs
      else markup In_quote (acc @ [c]) cs)"

text \<open>The inside of a tag cut into names, quoted values, \<open>=\<close>, \<open>/\<close> and spaces.\<close>

datatype token = Name string | Equals | Quoted string | Slash | Space

datatype token_mode = Plain | In_name string | In_value string

fun tokens :: "token_mode \<Rightarrow> string \<Rightarrow> token list option" where
  "tokens Plain [] = Some []"
| "tokens (In_name n) [] = Some [Name n]"
| "tokens (In_value v) [] = None"
| "tokens (In_value v) (c # cs) =
     (if c = quote then map_option (Cons (Quoted v)) (tokens Plain cs)
      else tokens (In_value (v @ [c])) cs)"
| "tokens (In_name n) (c # cs) =
     (if c \<in> set name_chars then tokens (In_name (n @ [c])) cs
      else if c = CHR '' '' then map_option (\<lambda>ts. Name n # Space # ts) (tokens Plain cs)
      else if c = CHR ''='' then map_option (\<lambda>ts. Name n # Equals # ts) (tokens Plain cs)
      else if c = CHR ''/'' then map_option (\<lambda>ts. Name n # Slash # ts) (tokens Plain cs)
      else if c = quote then map_option (Cons (Name n)) (tokens (In_value []) cs)
      else None)"
| "tokens Plain (c # cs) =
     (if c \<in> set name_chars then tokens (In_name [c]) cs
      else if c = CHR '' '' then map_option (Cons Space) (tokens Plain cs)
      else if c = CHR ''='' then map_option (Cons Equals) (tokens Plain cs)
      else if c = CHR ''/'' then map_option (Cons Slash) (tokens Plain cs)
      else if c = quote then tokens (In_value []) cs
      else None)"

text \<open>A run of spaces counts as one, and the spaces around \<open>=\<close> count for nothing.\<close>

fun squeeze :: "token list \<Rightarrow> token list" where
  "squeeze (Space # Space # ts) = squeeze (Space # ts)"
| "squeeze (t # ts) = t # squeeze ts"
| "squeeze [] = []"

fun around_equals :: "token list \<Rightarrow> token list" where
  "around_equals (Space # Equals # ts) = around_equals (Equals # ts)"
| "around_equals (Equals # Space # ts) = Equals # around_equals ts"
| "around_equals (t # ts) = t # around_equals ts"
| "around_equals [] = []"

text \<open>
  The attributes of a tag, each after a space, and whether the tag closes itself with a
  final \<open>/\<close>.
\<close>

fun attributes :: "token list \<Rightarrow> ((string \<times> string) list \<times> bool) option" where
  "attributes [] = Some ([], False)"
| "attributes [Space] = Some ([], False)"
| "attributes [Slash] = Some ([], True)"
| "attributes [Space, Slash] = Some ([], True)"
| "attributes (Space # Name k # Equals # Quoted v # ts) =
     (if valid_name k then map_option (\<lambda>(kvs, e). ((k, v) # kvs, e)) (attributes ts)
      else None)"
| "attributes ts = None"

datatype tag_kind =
    Opening string "(string \<times> string) list"
  | Empty_element string "(string \<times> string) list"
  | Closing string

fun tag_of_tokens :: "token list \<Rightarrow> tag_kind option" where
  "tag_of_tokens (Slash # Name n # ts) =
     (if valid_name n \<and> (ts = [] \<or> ts = [Space]) then Some (Closing n) else None)"
| "tag_of_tokens (Name n # ts) =
     (case attributes ts of
        None \<Rightarrow> None
      | Some (kvs, e) \<Rightarrow>
          (if valid_name n \<and> distinct (map fst kvs)
           then Some (if e then Empty_element n kvs else Opening n kvs)
           else None))"
| "tag_of_tokens ts = None"

definition tag_of :: "string \<Rightarrow> tag_kind option" where
  "tag_of s =
     (case tokens Plain s of
        None \<Rightarrow> None
      | Some ts \<Rightarrow> tag_of_tokens (around_equals (squeeze ts)))"

text \<open>
  The tree, built over the stack of the elements that are open; \<open>root\<close> is the document
  element once it is closed. Outside the document element only spaces may stand.
\<close>

type_synonym frame = "string \<times> (string \<times> string) list \<times> element list"

fun attach :: "element \<Rightarrow> frame list \<Rightarrow> element option \<Rightarrow> frame list \<times> element option" where
  "attach e [] root = ([], Some e)"
| "attach e ((n, kvs, cs) # stack) root = ((n, kvs, cs @ [e]) # stack, root)"

fun build :: "item list \<Rightarrow> frame list \<Rightarrow> element option \<Rightarrow> element option" where
  "build [] stack root = (if stack = [] then root else None)"
| "build (Text t # its) stack root =
     (if stack = [] \<and> \<not> list_all (\<lambda>c. c = CHR '' '') t then None else build its stack root)"
| "build (Tag s # its) stack root =
     (case tag_of s of
        None \<Rightarrow> None
      | Some (Opening n kvs) \<Rightarrow>
          (if stack = [] \<and> root \<noteq> None then None else build its ((n, kvs, []) # stack) root)
      | Some (Empty_element n kvs) \<Rightarrow>
          (if stack = [] \<and> root \<noteq> None then None
           else build its (fst (attach (Elem n kvs []) stack root))
                  (snd (attach (Elem n kvs []) stack root)))
      | Some (Closing n) \<Rightarrow>
          (case stack of
             [] \<Rightarrow> None
           | (m, kvs, cs) # below \<Rightarrow>
               (if m = n
                then build its (fst (attach (Elem m kvs cs) below root))
                       (snd (attach (Elem m kvs cs) below root))
                else None)))"

definition document :: "string \<Rightarrow> exn + element" where
  "document s =
     (case markup Outside [] s of
        None \<Rightarrow> Inl ParseError
      | Some its \<Rightarrow> (case build its [] None of None \<Rightarrow> Inl ParseError | Some e \<Rightarrow> Inr e))"

text \<open>
  The XML declarations read, each with what the declared encoding makes the library raise
  when it meets the declaration.
\<close>

definition xml_declaration :: "string \<Rightarrow> string" where
  "xml_declaration encoding =
     ''<?xml version='' @ [quote] @ ''1.0'' @ [quote]
       @ '' encoding='' @ [quote] @ encoding @ [quote] @ ''?>''"

definition declarations :: "(string \<times> exn option) list" where
  "declarations =
     [(''<?xml version='' @ [quote] @ ''1.0'' @ [quote] @ ''?>'', None),
      (xml_declaration ''utf-8'', None),
      (xml_declaration ''UTF-8'', None),
      (xml_declaration ''foo'', Some (LookupError ''unknown encoding: foo'')),
      (xml_declaration ''big5'', Some (ValueError ''multi-byte encodings are not supported''))]"

fun has_infix :: "string \<Rightarrow> string \<Rightarrow> bool" where
  "has_infix sub [] = (sub = [])"
| "has_infix sub (c # cs) = (take (length sub) (c # cs) = sub \<or> has_infix sub cs)"

definition fromstring_fragment :: "bytes \<Rightarrow> exn + element" where
  "fromstring_fragment data =
     (if list_all (\<lambda>c. c \<in> set fragment_chars) data \<and> \<not> has_infix ''xmlns'' data then
        (if CHR ''?'' \<in> set data then
           (case find (\<lambda>(d, a). take (length d) data = d) declarations of
              None \<Rightarrow> Inl NotImplementedError
            | Some (d, Some e) \<Rightarrow> Inl e
            | Some (d, None) \<Rightarrow>
                (if CHR ''?'' \<in> set (drop (length d) data) then Inl NotImplementedError
                 else document (drop (length d) data)))
         else document data)
      else Inl NotImplementedError)"

definition ElementTree :: etree where
  "ElementTree = \<lparr> tostring = tostring_xml, fromstring = fromstring_fragment \<rparr>"

text \<open>
  An operating system that opens and binds socket \<open>n\<close> and starts thread \<open>n\<close>, and a device
  that is connected: \<open>connect_listener\<close> has run once on the new object.
\<close>

definition os_gives :: "nat \<Rightarrow> os_connect" where
  "os_gives n =
     \<lparr> socket_socket = Inr n, socket_bind = None, new_Thread = n, Thread_start = None \<rparr>"

definition connected_once :: device where
  "connected_once = snd (connect_listener ElementTree (os_gives 1) 0 (init 0))"

text \<open>
  An iteration of the loop in which every socket call succeeds: one in which the datagram
  \<open>data\<close> arrives within the read timeout, and one in which none does. The clock reads \<open>t1\<close>
  in \<open>process_message\<close> and \<open>t2\<close> at line 160.
\<close>

definition reply_io :: "bytes \<Rightarrow> datetime \<Rightarrow> datetime \<Rightarrow> loop_io" where
  "reply_io data t1 t2 =
     \<lparr> flush_error = None, sendto_error = None, select_result = Inr True,
       recv_result = Inr data, process_now = t1, activity_now = t2,
       shutdown_close_error = None \<rparr>"

definition silent_io :: "datetime \<Rightarrow> loop_io" where
  "silent_io t2 =
     \<lparr> flush_error = None, sendto_error = None, select_result = Inr False,
       recv_result = Inr [], process_now = t2, activity_now = t2,
       shutdown_close_error = None \<rparr>"

text \<open>
  Two datagrams that are no well-formed element and declare an encoding: a truncated one, and
  one of plain letters.
\<close>

definition truncated_unknown_encoding :: bytes where
  "truncated_unknown_encoding = xml_declaration ''foo'' @ ''<IdentifyAck''"

definition garbage_multibyte_encoding :: bytes where
  "garbage_multibyte_encoding = xml_declaration ''big5'' @ ''garbage''"

section \<open>Properties\<close>

subsection \<open>The outbound queue\<close>

lemma rev_last_butlast: "q \<noteq> [] \<Longrightarrow> rev q = last q # rev (butlast q)"
  by (induction q rule: rev_induct) simp_all

lemma pop_message_nonempty:
  "message_queue self \<noteq> [] \<Longrightarrow>
     pop_message self =
       (Inr (Some (last (message_queue self))),
        self\<lparr>message_queue := butlast (message_queue self)\<rparr>)"
  by (simp add: pop_message_def deque_pop_def)

lemma pop_message_empty: "message_queue self = [] \<Longrightarrow> pop_message self = (Inr None, self)"
  by (simp add: pop_message_def)

lemma queue_run_exact:
  "queue_run ops self
     = (take (taken ops (length (message_queue self))) (rev (message_queue self) @ pushed ops),
        self\<lparr>message_queue :=
               rev (drop (taken ops (length (message_queue self)))
                      (rev (message_queue self) @ pushed ops))\<rparr>)"
proof (induction ops self rule: queue_run.induct)
  case (1 self)
  show ?case by simp
next
  case (2 m ops self)
  then show ?case by (simp add: send_string_to_mvn_def deque_appendleft_def)
next
  case (3 ops self)
  show ?case
  proof (cases "message_queue self = []")
    case True
    with 3 show ?thesis by (simp add: pop_message_empty)
  next
    case False
    with 3 show ?thesis by (simp add: pop_message_nonempty rev_last_butlast)
  qed
qed

lemma pushed_batch: "pushed (map Push ms @ replicate k Pop) = ms"
proof (induction ms)
  case Nil
  show ?case by (induction k) simp_all
next
  case (Cons m ms)
  then show ?case by simp
qed

lemma taken_pops: "taken (replicate k Pop) n = min k n"
  by (induction k arbitrary: n) auto

lemma taken_batch: "taken (map Push ms @ replicate k Pop) n = min k (n + length ms)"
  by (induction ms arbitrary: n) (simp_all add: taken_pops)

lemma queue_run_batch:
  "queue_run (map Push ms @ replicate k Pop) (self\<lparr>message_queue := []\<rparr>)
     = (take k ms, self\<lparr>message_queue := rev (drop k ms)\<rparr>)"
  by (simp add: queue_run_exact pushed_batch taken_batch min_def)

text \<open>
  C1 (as amended). The queue is first in, first out. A drain that finds messages waiting
  removes and returns the one at the right end of the deque, the oldest, as pushes add at the
  left. Whatever the schedule of pushes and drains, with K the number of its drains that find
  a message waiting, the messages drained are, in order, the first K of the messages queued at
  the start (oldest first) followed by the messages pushed (in the order pushed); the others
  are still queued, the oldest at the right, and they are as many as were queued and pushed,
  less K. In particular N pushes followed by K drains on the empty queue return the first K
  messages pushed, in the order pushed, and leave N - K messages (none, if K exceeds N).
\<close>

theorem C1_queue_is_fifo:
  "pop_message (self\<lparr>message_queue := q @ [oldest]\<rparr>)
     = (Inr (Some oldest), self\<lparr>message_queue := q\<rparr>)
   \<and> message_queue (send_string_to_mvn newest self) = newest # message_queue self
   \<and> queue_run ops self
       = (take (taken ops (length (message_queue self))) (rev (message_queue self) @ pushed ops),
          self\<lparr>message_queue :=
                 rev (drop (taken ops (length (message_queue self)))
                        (rev (message_queue self) @ pushed ops))\<rparr>)
   \<and> length (message_queue (snd (queue_run ops self)))
       = length (message_queue self) + length (pushed ops)
           - taken ops (length (message_queue self))
   \<and> queue_run (map Push ms @ replicate k Pop) (self\<lparr>message_queue := []\<rparr>)
       = (take k ms, self\<lparr>message_queue := rev (drop k ms)\<rparr>)
   \<and> length (message_queue
         (snd (queue_run (map Push ms @ replicate k Pop) (self\<lparr>message_queue := []\<rparr>))))
       = length ms - k"
proof -
  have one: "pop_message (self\<lparr>message_queue := q @ [oldest]\<rparr>)
     = (Inr (Some oldest), self\<lparr>message_queue := q\<rparr>)"
    by (simp add: pop_message_def deque_pop_def)
  have push: "message_queue (send_string_to_mvn newest self) = newest # message_queue self"
    by (simp add: send_string_to_mvn_def deque_appendleft_def)
  note run = queue_run_exact [of ops self]
  have len: "length (message_queue (snd (queue_run ops self)))
       = length (message_queue self) + length (pushed ops)
           - taken ops (length (message_queue self))"
    by (simp add: queue_run_exact)
  note batch = queue_run_batch [of ms k self]
  have batch_len: "length (message_queue
         (snd (queue_run (map Push ms @ replicate k Pop) (self\<lparr>message_queue := []\<rparr>))))
       = length ms - k"
    by (simp add: queue_run_batch)
  from one push run len batch batch_len show ?thesis by (intro conjI)
qed

text \<open>
  C1 (as stated) fails: after \<open>first\<close> and then \<open>second\<close> are pushed on the empty queue, the
  drain takes \<open>first\<close>, not the most recently pushed \<open>second\<close>.
\<close>

theorem C1_lifo_counterexample:
  "fst (pop_message (send_string_to_mvn ''second'' (send_string_to_mvn ''first'' (init 0))))
     = Inr (Some ''first'')
   \<and> fst (pop_message (send_string_to_mvn ''second'' (send_string_to_mvn ''first'' (init 0))))
     \<noteq> Inr (Some ''second'')"
  by (simp add: pop_message_def deque_pop_def send_string_to_mvn_def deque_appendleft_def init_def)

subsection \<open>Names the module does not bind\<close>

lemma state_elem_unbound:
  "first_unbound
     [''self'', ''take_name'', ''take_num'', ''msg_elem'', ''slate_elem'', ''take_elem'']
     [''state_elem'', ''value''] = Some ''state_elem''"
  by (simp add: first_unbound_def unbound_def module_globals_def builtins_def)

lemma cmd_name_unbound:
  "first_unbound [''self'', ''data'', ''msg_elem'', ''e''] [''cmd_name''] = Some ''cmd_name''"
  by (simp add: first_unbound_def unbound_def module_globals_def builtins_def)

text \<open>
  C4. \<open>set_take\<close> does not enqueue a \<open>CaptureName\<close> message: for every take name and number
  it stores both, then raises \<open>NameError\<close> at the read of \<open>state_elem\<close>, and the queue is as
  it was.
\<close>

theorem C4_set_take_raises_NameError:
  "set_take take_name take_num self
     = (Raised (NameError ''state_elem''), self\<lparr>d_slate := take_name, d_take := take_num\<rparr>)
   \<and> message_queue (snd (set_take take_name take_num self)) = message_queue self"
  by (simp add: set_take_def Let_def state_elem_unbound)

subsection \<open>Responses\<close>

lemma unregistered_tag:
  "t \<notin> {''IdentifyAck'', ''StartRecordingAck'', ''StopRecordingAck'', ''CaptureNameAck''}
     \<Longrightarrow> map_of (command_response_callbacks lib) t = None"
  by (simp add: command_response_callbacks_def)

text \<open>
  C2. A datagram that decodes to an element whose tag is none of the four registered tags
  makes \<open>process_message\<close> raise \<open>NameError\<close> at the read of \<open>cmd_name\<close>: nothing is logged,
  and only \<open>last_activity\<close> has changed.
\<close>

theorem C2_unrecognized_tag_raises_NameError:
  assumes "fromstring lib data = Inr msg_elem"
    and "tag msg_elem \<notin>
           {''IdentifyAck'', ''StartRecordingAck'', ''StopRecordingAck'', ''CaptureNameAck''}"
  shows "process_message lib now data self
           = (Raised (NameError ''cmd_name''), self\<lparr>last_activity := now\<rparr>)"
  using assms by (simp add: process_message_def unregistered_tag cmd_name_unbound)

lemma fromstring_Foo: "fromstring ElementTree ''<Foo />'' = Inr (Element ''Foo'')"
  by code_simp

theorem C2_unrecognized_tag_witness:
  "fromstring ElementTree ''<Foo />'' = Inr (Element ''Foo'')
   \<and> tag (Element ''Foo'') \<notin>
       {''IdentifyAck'', ''StartRecordingAck'', ''StopRecordingAck'', ''CaptureNameAck''}
   \<and> process_message ElementTree 5 ''<Foo />'' (init 0)
       = (Raised (NameError ''cmd_name''), (init 0)\<lparr>last_activity := 5\<rparr>)"
proof -
  have t: "tag (Element ''Foo'') \<notin>
       {''IdentifyAck'', ''StartRecordingAck'', ''StopRecordingAck'', ''CaptureNameAck''}"
    by (simp add: Element_def)
  from fromstring_Foo t
    C2_unrecognized_tag_raises_NameError [OF fromstring_Foo t, of 5 "init 0"]
  show ?thesis by blast
qed

text \<open>
  In the session loop that \<open>NameError\<close> reaches the \<open>except\<close> clause: the iteration that
  receives such a datagram is the last, and the host is told the client has disconnected.
\<close>

lemma unrecognized_tag_ends_the_loop:
  assumes "message_queue self \<noteq> []"
    and "flush_error io = None" and "sendto_error io = None"
    and "select_result io = Inr True" and "recv_result io = Inr data"
    and "fromstring lib data = Inr msg_elem"
    and "tag msg_elem \<notin>
           {''IdentifyAck'', ''StartRecordingAck'', ''StopRecordingAck'', ''CaptureNameAck''}"
  shows "fst (loop_body lib io fd self) = Loop_exit"
    and "effects (snd (loop_body lib io fd self))
           = effects self @ [Flushed fd, Sent fd (last (message_queue self)), Client_disconnected]"
    and "socket (snd (loop_body lib io fd self)) = socket self"
  using assms
  by (simp_all add: loop_body_def send_and_receive_def pop_message_nonempty process_message_def
        unregistered_tag cmd_name_unbound except_handler_def emit_def LOGGER_def)

text \<open>No callback and no branch of \<open>process_message\<close> assigns \<open>last_activity\<close> after line 201.\<close>

lemma callback_keeps_last_activity:
  "map_of (command_response_callbacks lib) t = Some callback
     \<Longrightarrow> last_activity (callback msg_elem s) = last_activity s"
  by (auto simp: command_response_callbacks_def on_mvn_identify_response_def
        on_mvn_recording_started_def on_mvn_recording_stopped_def
        on_mvn_record_take_name_set_def LOGGER_def emit_def split: if_splits)

lemma process_message_last_activity:
  "last_activity (snd (process_message lib now data self)) = now"
proof (cases "fromstring lib data")
  case (Inl e)
  then show ?thesis by (simp add: process_message_def LOGGER_def Let_def)
next
  case (Inr msg_elem)
  show ?thesis
  proof (cases "map_of (command_response_callbacks lib) (tag msg_elem)")
    case None
    with Inr show ?thesis by (simp add: process_message_def cmd_name_unbound)
  next
    case (Some callback)
    with Inr show ?thesis by (simp add: process_message_def callback_keeps_last_activity)
  qed
qed

text \<open>Nor does any of them assign \<open>close_socket\<close>.\<close>

lemma callback_keeps_close_socket:
  "map_of (command_response_callbacks lib) t = Some callback
     \<Longrightarrow> close_socket (callback msg_elem s) = close_socket s"
  by (auto simp: command_response_callbacks_def on_mvn_identify_response_def
        on_mvn_recording_started_def on_mvn_recording_stopped_def
        on_mvn_record_take_name_set_def LOGGER_def emit_def split: if_splits)

lemma process_message_close_socket:
  "close_socket (snd (process_message lib now data self)) = close_socket self"
proof (cases "fromstring lib data")
  case (Inl e)
  then show ?thesis by (simp add: process_message_def LOGGER_def Let_def)
next
  case (Inr msg_elem)
  show ?thesis
  proof (cases "map_of (command_response_callbacks lib) (tag msg_elem)")
    case None
    with Inr show ?thesis by (simp add: process_message_def cmd_name_unbound)
  next
    case (Some callback)
    with Inr show ?thesis by (simp add: process_message_def callback_keeps_close_socket)
  qed
qed

subsection \<open>A datagram in the session loop\<close>

text \<open>
  The iteration that takes a message from the queue, sends it and receives \<open>data\<close> hands
  \<open>data\<close> to \<open>process_message\<close>; what the iteration does next is decided by whether that call
  returns or raises.
\<close>

lemma send_and_receive_reply:
  assumes "message_queue self \<noteq> []"
    and "flush_error io = None" and "sendto_error io = None"
    and "select_result io = Inr True" and "recv_result io = Inr data"
  shows "send_and_receive lib io fd self
           = process_message lib (process_now io) data
               (self\<lparr>message_queue := butlast (message_queue self),
                     effects := effects self
                       @ [Flushed fd, Sent fd (last (message_queue self))]\<rparr>)"
  using assms by (simp add: send_and_receive_def pop_message_nonempty emit_def)

lemma loop_body_returned:
  assumes "send_and_receive lib io fd self = (Returned, s1)"
    and "activity_now io - last_activity s1 \<le> disconnect_timeout"
    and "\<not> close_socket s1"
  shows "loop_body lib io fd self
           = (Next_iteration, snd (check_activity lib (activity_now io) s1))"
  using assms
  by (simp add: loop_body_def check_activity_def close_if_requested_def
        send_identify_request_def send_request_to_mvn_def send_string_to_mvn_def
        LOGGER_def Let_def)

lemma loop_body_raised:
  assumes "send_and_receive lib io fd self = (Raised e, s1)"
  shows "loop_body lib io fd self = (Loop_exit, except_handler e s1)"
  using assms by (simp add: loop_body_def)

lemma process_message_decode_failure:
  assumes "fromstring lib data = Inl e"
  shows "process_message lib now data s
           = (if e = ParseError
              then (Returned,
                    s\<lparr>last_activity := now,
                      logged := logged s @ [(ERROR, Could_not_parse data)]\<rparr>)
              else (Raised e, s\<lparr>last_activity := now\<rparr>))"
  using assms by (simp add: process_message_def LOGGER_def Let_def)

text \<open>
  C3 (as amended). Of the failures to decode a datagram only \<open>ParseError\<close> is caught. When the
  decoder raises \<open>ParseError\<close>, \<open>process_message\<close> logs the datagram, drops it and returns, and
  only \<open>last_activity\<close> and the log have changed; the loop iteration that received it goes
  on to the activity check and to the next iteration (if the clock at line 160 reads no more
  than three seconds later and no shutdown was requested). When the decoder raises another
  exception, \<open>process_message\<close> raises it with nothing logged, and the loop iteration that
  received the datagram is the last: the \<open>except\<close> clause logs the exception and tells the
  host that the client has disconnected.
\<close>

theorem C3_only_ParseError_is_dropped:
  assumes "fromstring lib data = Inl e"
    and "message_queue self \<noteq> []"
    and "flush_error io = None" and "sendto_error io = None"
    and "select_result io = Inr True" and "recv_result io = Inr data"
    and "activity_now io - process_now io \<le> disconnect_timeout"
    and "\<not> close_socket self"
  shows "process_message lib now data s
           = (if e = ParseError
              then (Returned,
                    s\<lparr>last_activity := now,
                      logged := logged s @ [(ERROR, Could_not_parse data)]\<rparr>)
              else (Raised e, s\<lparr>last_activity := now\<rparr>))
         \<and> loop_body lib io fd self
           = (if e = ParseError
              then (Next_iteration,
                    snd (check_activity lib (activity_now io)
                      (self\<lparr>message_queue := butlast (message_queue self),
                            effects := effects self
                              @ [Flushed fd, Sent fd (last (message_queue self))],
                            last_activity := process_now io,
                            logged := logged self @ [(ERROR, Could_not_parse data)]\<rparr>)))
              else (Loop_exit,
                    except_handler e
                      (self\<lparr>message_queue := butlast (message_queue self),
                            effects := effects self
                              @ [Flushed fd, Sent fd (last (message_queue self))],
                            last_activity := process_now io\<rparr>)))"
proof -
  note pm = process_message_decode_failure [OF assms(1)]
  note sr = send_and_receive_reply [OF assms(2-6), of lib fd]
  show ?thesis
  proof (cases "e = ParseError")
    case True
    have "send_and_receive lib io fd self
            = (Returned,
               self\<lparr>message_queue := butlast (message_queue self),
                     effects := effects self
                       @ [Flushed fd, Sent fd (last (message_queue self))],
                     last_activity := process_now io,
                     logged := logged self @ [(ERROR, Could_not_parse data)]\<rparr>)"
      by (simp add: sr pm True)
    from loop_body_returned [OF this] assms(7,8) True pm show ?thesis by simp
  next
    case False
    have "send_and_receive lib io fd self
            = (Raised e,
               self\<lparr>message_queue := butlast (message_queue self),
                     effects := effects self
                       @ [Flushed fd, Sent fd (last (message_queue self))],
                     last_activity := process_now io\<rparr>)"
      by (simp add: sr pm False)
    from loop_body_raised [OF this] False pm show ?thesis by simp
  qed
qed

lemma fromstring_truncated: "fromstring ElementTree ''<IdentifyAck'' = Inl ParseError"
  by code_simp

lemma fromstring_unknown_encoding:
  "fromstring ElementTree truncated_unknown_encoding = Inl (LookupError ''unknown encoding: foo'')"
  by code_simp

lemma fromstring_multibyte_encoding:
  "fromstring ElementTree garbage_multibyte_encoding
     = Inl (ValueError ''multi-byte encodings are not supported'')"
  by code_simp

lemma reply_io_simps:
  "flush_error (reply_io data t1 t2) = None"
  "sendto_error (reply_io data t1 t2) = None"
  "select_result (reply_io data t1 t2) = Inr True"
  "recv_result (reply_io data t1 t2) = Inr data"
  "process_now (reply_io data t1 t2) = t1"
  "activity_now (reply_io data t1 t2) = t2"
  "shutdown_close_error (reply_io data t1 t2) = None"
  by (simp_all add: reply_io_def)

lemma connected_once_eq:
  "connected_once
     = (init 0)\<lparr>message_queue := [''<IdentifyReq />''],
                  socket := Some 1,
                  awaiting_echo_response := True,
                  mvn_connection_thread := Some 1,
                  logged := [(WARNING, XML_string [])],
                  effects := [Socket_opened 1, Socket_bound 1, Thread_started 1]\<rparr>"
  by (simp add: connected_once_def os_gives_def connect_listener_def Let_def
        send_identify_request_def send_request_to_mvn_def send_string_to_mvn_def
        deque_appendleft_def LOGGER_def emit_def init_def ElementTree_def Element_def)

theorem C3_only_ParseError_witness:
  "fromstring ElementTree ''<IdentifyAck'' = Inl ParseError
   \<and> message_queue connected_once \<noteq> []
   \<and> flush_error (reply_io ''<IdentifyAck'' 10 20) = None
   \<and> sendto_error (reply_io ''<IdentifyAck'' 10 20) = None
   \<and> select_result (reply_io ''<IdentifyAck'' 10 20) = Inr True
   \<and> recv_result (reply_io ''<IdentifyAck'' 10 20) = Inr ''<IdentifyAck''
   \<and> activity_now (reply_io ''<IdentifyAck'' 10 20) - process_now (reply_io ''<IdentifyAck'' 10 20)
       \<le> disconnect_timeout
   \<and> \<not> close_socket connected_once
   \<and> process_message ElementTree 5 ''<IdentifyAck'' (init 0)
       = (Returned,
          (init 0)\<lparr>last_activity := 5, logged := [(ERROR, Could_not_parse ''<IdentifyAck'')]\<rparr>)
   \<and> loop_body ElementTree (reply_io ''<IdentifyAck'' 10 20) 1 connected_once
       = (Next_iteration,
          connected_once
            \<lparr>message_queue := [],
             effects := [Socket_opened 1, Socket_bound 1, Thread_started 1,
                         Flushed 1, Sent 1 ''<IdentifyReq />''],
             last_activity := 10,
             logged := [(WARNING, XML_string []), (ERROR, Could_not_parse ''<IdentifyAck'')]\<rparr>)"
proof -
  have q: "message_queue connected_once \<noteq> []" by (simp add: connected_once_eq)
  have t: "activity_now (reply_io ''<IdentifyAck'' 10 20)
             - process_now (reply_io ''<IdentifyAck'' 10 20) \<le> disconnect_timeout"
    by (simp add: reply_io_simps disconnect_timeout_def)
  have c: "\<not> close_socket connected_once" by (simp add: connected_once_eq init_def)
  note dropped = C3_only_ParseError_is_dropped
    [OF fromstring_truncated q reply_io_simps(1-4) t c, of 5 "init 0" 1]
  from dropped have pm: "process_message ElementTree 5 ''<IdentifyAck'' (init 0)
       = (Returned,
          (init 0)\<lparr>last_activity := 5, logged := [(ERROR, Could_not_parse ''<IdentifyAck'')]\<rparr>)"
    by (simp add: init_def)
  from dropped have lb: "loop_body ElementTree (reply_io ''<IdentifyAck'' 10 20) 1 connected_once
       = (Next_iteration,
          connected_once
            \<lparr>message_queue := [],
             effects := [Socket_opened 1, Socket_bound 1, Thread_started 1,
                         Flushed 1, Sent 1 ''<IdentifyReq />''],
             last_activity := 10,
             logged := [(WARNING, XML_string []), (ERROR, Could_not_parse ''<IdentifyAck'')]\<rparr>)"
    by (simp add: reply_io_simps connected_once_eq init_def check_activity_def
          ping_interval_def disconnect_timeout_def)
  from fromstring_truncated q reply_io_simps(1-4) t c pm lb show ?thesis by (intro conjI)
qed

text \<open>
  C3 (as stated) fails: the truncated datagram that declares the encoding \<open>foo\<close> is no
  well-formed element, the decoder answers \<open>LookupError\<close> to it, and \<open>process_message\<close>
  raises; the loop iteration that receives it on a connected device is the last, and the host
  is told the client has disconnected.
\<close>

theorem C3_decode_failure_counterexample:
  "fromstring ElementTree truncated_unknown_encoding
     = Inl (LookupError ''unknown encoding: foo'')
   \<and> process_message ElementTree 5 truncated_unknown_encoding (init 0)
       = (Raised (LookupError ''unknown encoding: foo''), (init 0)\<lparr>last_activity := 5\<rparr>)
   \<and> fst (loop_body ElementTree (reply_io truncated_unknown_encoding 10 20) 1 connected_once)
       = Loop_exit
   \<and> effects (snd (loop_body ElementTree (reply_io truncated_unknown_encoding 10 20) 1
                     connected_once))
       = [Socket_opened 1, Socket_bound 1, Thread_started 1,
          Flushed 1, Sent 1 ''<IdentifyReq />'', Client_disconnected]"
  by (simp add: process_message_def fromstring_unknown_encoding loop_body_def
        send_and_receive_def pop_message_def deque_pop_def reply_io_simps connected_once_eq
        except_handler_def emit_def LOGGER_def init_def Let_def)

text \<open>
  C10 (as amended). Whatever the datagram, and whether \<open>process_message\<close> returns or raises,
  the object it leaves has \<open>last_activity\<close> set to the clock's reading at the call, so the
  loop iteration that receives a datagram leaves the send-and-receive step with the
  inactivity timer restarted. That alone does not keep the session alive. If
  \<open>process_message\<close> returns, the iteration goes on to the activity check and to the next
  iteration (if the clock at line 160 reads no more than three seconds later and no shutdown
  was requested). If \<open>process_message\<close> raises, as it does on a decode failure other than
  \<open>ParseError\<close>, the iteration is the last although the timer was restarted: the \<open>except\<close>
  clause tells the host that the client has disconnected.
\<close>

theorem C10_last_activity_reset_and_session:
  assumes "message_queue self \<noteq> []"
    and "flush_error io = None" and "sendto_error io = None"
    and "select_result io = Inr True" and "recv_result io = Inr data"
    and "activity_now io - process_now io \<le> disconnect_timeout"
    and "\<not> close_socket self"
  shows "last_activity (snd (process_message lib now data s)) = now
         \<and> send_and_receive lib io fd self
           = process_message lib (process_now io) data
               (self\<lparr>message_queue := butlast (message_queue self),
                     effects := effects self
                       @ [Flushed fd, Sent fd (last (message_queue self))]\<rparr>)
         \<and> last_activity (snd (send_and_receive lib io fd self)) = process_now io
         \<and> loop_body lib io fd self
           = (case process_message lib (process_now io) data
                     (self\<lparr>message_queue := butlast (message_queue self),
                           effects := effects self
                             @ [Flushed fd, Sent fd (last (message_queue self))]\<rparr>) of
                (Returned, s1) \<Rightarrow>
                  (Next_iteration, snd (check_activity lib (activity_now io) s1))
              | (Raised e, s1) \<Rightarrow> (Loop_exit, except_handler e s1))"
proof -
  let ?sent = "self\<lparr>message_queue := butlast (message_queue self),
                     effects := effects self
                       @ [Flushed fd, Sent fd (last (message_queue self))]\<rparr>"
  note sr = send_and_receive_reply [OF assms(1-5), of lib fd]
  have la: "last_activity (snd (send_and_receive lib io fd self)) = process_now io"
    by (simp only: sr process_message_last_activity)
  obtain out s1 where r: "process_message lib (process_now io) data ?sent = (out, s1)"
    by (cases "process_message lib (process_now io) data ?sent")
  have s1_time: "last_activity s1 = process_now io"
    using process_message_last_activity [of lib "process_now io" data ?sent] r by simp
  have s1_flag: "\<not> close_socket s1"
    using process_message_close_socket [of lib "process_now io" data ?sent] r assms(7) by simp
  have body: "loop_body lib io fd self
           = (case (out, s1) of
                (Returned, s1) \<Rightarrow>
                  (Next_iteration, snd (check_activity lib (activity_now io) s1))
              | (Raised e, s1) \<Rightarrow> (Loop_exit, except_handler e s1))"
  proof (cases out)
    case Returned
    with sr r have "send_and_receive lib io fd self = (Returned, s1)" by simp
    from loop_body_returned [OF this] s1_time s1_flag assms(6) Returned
    show ?thesis by simp
  next
    case (Raised e)
    with sr r have "send_and_receive lib io fd self = (Raised e, s1)" by simp
    from loop_body_raised [OF this] Raised show ?thesis by simp
  qed
  from process_message_last_activity [of lib now data s] sr la body r
  show ?thesis by simp
qed

theorem C10_last_activity_reset_witness:
  "message_queue connected_once \<noteq> []
   \<and> flush_error (reply_io ''<IdentifyAck />'' 10 20) = None
   \<and> sendto_error (reply_io ''<IdentifyAck />'' 10 20) = None
   \<and> select_result (reply_io ''<IdentifyAck />'' 10 20) = Inr True
   \<and> recv_result (reply_io ''<IdentifyAck />'' 10 20) = Inr ''<IdentifyAck />''
   \<and> activity_now (reply_io ''<IdentifyAck />'' 10 20)
       - process_now (reply_io ''<IdentifyAck />'' 10 20) \<le> disconnect_timeout
   \<and> \<not> close_socket connected_once
   \<and> last_activity (snd (process_message ElementTree 5 ''<IdentifyAck />'' (init 0))) = 5
   \<and> last_activity
       (snd (send_and_receive ElementTree (reply_io ''<IdentifyAck />'' 10 20) 1 connected_once))
       = 10
   \<and> loop_body ElementTree (reply_io ''<IdentifyAck />'' 10 20) 1 connected_once
       = (Next_iteration,
          connected_once
            \<lparr>message_queue := [],
             effects := [Socket_opened 1, Socket_bound 1, Thread_started 1,
                         Flushed 1, Sent 1 ''<IdentifyReq />'', Status_set READY],
             last_activity := 10,
             awaiting_echo_response := False,
             logged := [(WARNING, XML_string []),
                        (WARNING, MVN_identify_response ''<IdentifyAck />'')]\<rparr>)"
proof -
  have q: "message_queue connected_once \<noteq> []" by (simp add: connected_once_eq)
  have t: "activity_now (reply_io ''<IdentifyAck />'' 10 20)
             - process_now (reply_io ''<IdentifyAck />'' 10 20) \<le> disconnect_timeout"
    by (simp add: reply_io_simps disconnect_timeout_def)
  have c: "\<not> close_socket connected_once" by (simp add: connected_once_eq init_def)
  have ack: "fromstring ElementTree ''<IdentifyAck />'' = Inr (Element ''IdentifyAck'')"
    by code_simp
  have enc: "tostring ElementTree (Elem ''IdentifyAck'' [] []) = ''<IdentifyAck />''"
    by (simp add: ElementTree_def)
  note reset = C10_last_activity_reset_and_session
    [OF q reply_io_simps(1-4) t c, of ElementTree 5 "init 0" 1]
  from reset have a: "last_activity (snd (process_message ElementTree 5 ''<IdentifyAck />'' (init 0))) = 5"
    by (elim conjE)
  from reset have "last_activity
       (snd (send_and_receive ElementTree (reply_io ''<IdentifyAck />'' 10 20) 1 connected_once))
       = process_now (reply_io ''<IdentifyAck />'' 10 20)"
    by (elim conjE)
  then have b: "last_activity
       (snd (send_and_receive ElementTree (reply_io ''<IdentifyAck />'' 10 20) 1 connected_once))
       = 10"
    by (simp only: reply_io_simps)
  from reset have lb: "loop_body ElementTree (reply_io ''<IdentifyAck />'' 10 20) 1 connected_once
       = (Next_iteration,
          connected_once
            \<lparr>message_queue := [],
             effects := [Socket_opened 1, Socket_bound 1, Thread_started 1,
                         Flushed 1, Sent 1 ''<IdentifyReq />'', Status_set READY],
             last_activity := 10,
             awaiting_echo_response := False,
             logged := [(WARNING, XML_string []),
                        (WARNING, MVN_identify_response ''<IdentifyAck />'')]\<rparr>)"
    by (simp add: reply_io_simps connected_once_eq init_def process_message_def ack enc
          command_response_callbacks_def on_mvn_identify_response_def Element_def
          check_activity_def ping_interval_def disconnect_timeout_def
          emit_def LOGGER_def Let_def)
  from q reply_io_simps(1-4) t c a b lb show ?thesis by (intro conjI)
qed

text \<open>
  C10 (as stated) fails: a connected device has sent its probe and receives, ten microseconds
  later, letters that declare the encoding \<open>big5\<close>. \<open>process_message\<close> sets \<open>last_activity\<close>
  and raises \<open>ValueError\<close>; the clock at line 160 would read ten microseconds more, far
  inside the three seconds, and the loop ends all the same.
\<close>

theorem C10_session_ends_counterexample:
  "last_activity
     (snd (loop_body ElementTree (reply_io garbage_multibyte_encoding 10 20) 1 connected_once))
     = 10
   \<and> activity_now (reply_io garbage_multibyte_encoding 10 20) - 10 \<le> disconnect_timeout
   \<and> fst (loop_body ElementTree (reply_io garbage_multibyte_encoding 10 20) 1 connected_once)
       = Loop_exit
   \<and> logged (snd (loop_body ElementTree (reply_io garbage_multibyte_encoding 10 20) 1
                    connected_once))
       = [(WARNING, XML_string []),
          (WARNING, Disconnecting_due_to
                      (ValueError ''multi-byte encodings are not supported''))]
   \<and> effects (snd (loop_body ElementTree (reply_io garbage_multibyte_encoding 10 20) 1
                     connected_once))
       = [Socket_opened 1, Socket_bound 1, Thread_started 1,
          Flushed 1, Sent 1 ''<IdentifyReq />'', Client_disconnected]"
  by (simp add: process_message_def fromstring_multibyte_encoding loop_body_def
        send_and_receive_def pop_message_def deque_pop_def reply_io_simps connected_once_eq
        except_handler_def emit_def LOGGER_def init_def Let_def disconnect_timeout_def)

subsection \<open>The identify probe\<close>

lemma send_identify_request_awaiting:
  "awaiting_echo_response s \<Longrightarrow> send_identify_request lib s = s"
  by (simp add: send_identify_request_def)

lemma send_identify_request_idle:
  "\<not> awaiting_echo_response s \<Longrightarrow>
     send_identify_request lib s
       = s\<lparr>message_queue := tostring lib (Element ''IdentifyReq'') # message_queue s,
            awaiting_echo_response := True,
            logged := logged s @ [(WARNING, XML_string [])]\<rparr>"
  by (simp add: send_identify_request_def send_request_to_mvn_def send_string_to_mvn_def
        deque_appendleft_def LOGGER_def)

lemma check_activity_awaiting:
  "awaiting_echo_response s \<Longrightarrow> snd (check_activity lib t s) = s"
  by (simp add: check_activity_def Let_def send_identify_request_awaiting)

text \<open>
  C6. When the time since the last activity is more than one second and at most three, the
  check at line 160 returns; if no echo is awaited it enqueues one \<open>IdentifyReq\<close> and sets the
  flag, and if one is awaited it changes nothing. With the flag set,
  \<open>send_identify_request\<close> changes nothing, and a further check, at whatever time, leaves the
  queue as the first one left it.
\<close>

theorem C6_one_identify_probe:
  assumes "ping_interval < now - last_activity self"
    and "now - last_activity self \<le> disconnect_timeout"
  shows "check_activity lib now self
           = (Returned,
              if awaiting_echo_response self then self
              else self\<lparr>message_queue :=
                          tostring lib (Element ''IdentifyReq'') # message_queue self,
                        awaiting_echo_response := True,
                        logged := logged self @ [(WARNING, XML_string [])]\<rparr>)
         \<and> awaiting_echo_response (snd (check_activity lib now self))
         \<and> send_identify_request lib (snd (check_activity lib now self))
             = snd (check_activity lib now self)
         \<and> message_queue (snd (check_activity lib t (snd (check_activity lib now self))))
             = message_queue (snd (check_activity lib now self))"
proof -
  have first: "check_activity lib now self
           = (Returned,
              if awaiting_echo_response self then self
              else self\<lparr>message_queue :=
                          tostring lib (Element ''IdentifyReq'') # message_queue self,
                        awaiting_echo_response := True,
                        logged := logged self @ [(WARNING, XML_string [])]\<rparr>)"
    using assms
    by (simp add: check_activity_def Let_def send_identify_request_awaiting
          send_identify_request_idle)
  then have flag: "awaiting_echo_response (snd (check_activity lib now self))"
    by simp
  from flag have again: "send_identify_request lib (snd (check_activity lib now self))
             = snd (check_activity lib now self)"
    by (rule send_identify_request_awaiting)
  from flag have later: "snd (check_activity lib t (snd (check_activity lib now self)))
             = snd (check_activity lib now self)"
    by (rule check_activity_awaiting)
  from first flag again later show ?thesis by simp
qed

theorem C6_one_identify_probe_witness:
  "ping_interval < 1500000 - last_activity (init 0)
   \<and> 1500000 - last_activity (init 0) \<le> disconnect_timeout
   \<and> check_activity ElementTree 1500000 (init 0)
       = (Returned,
          (init 0)\<lparr>message_queue := [''<IdentifyReq />''],
                    awaiting_echo_response := True,
                    logged := [(WARNING, XML_string [])]\<rparr>)
   \<and> message_queue (snd (check_activity ElementTree 2900000
                            (snd (check_activity ElementTree 1500000 (init 0)))))
       = [''<IdentifyReq />'']"
proof -
  have a: "ping_interval < 1500000 - last_activity (init 0)"
    by (simp add: ping_interval_def init_def)
  have b: "1500000 - last_activity (init 0) \<le> disconnect_timeout"
    by (simp add: disconnect_timeout_def init_def)
  have m: "tostring ElementTree (Element ''IdentifyReq'') = ''<IdentifyReq />''"
    by (simp add: ElementTree_def Element_def)
  note probe = C6_one_identify_probe [OF a b, of ElementTree 2900000]
  from probe m have first: "check_activity ElementTree 1500000 (init 0)
       = (Returned,
          (init 0)\<lparr>message_queue := [''<IdentifyReq />''],
                    awaiting_echo_response := True,
                    logged := [(WARNING, XML_string [])]\<rparr>)"
    by (simp add: init_def)
  from probe have "message_queue (snd (check_activity ElementTree 2900000
                            (snd (check_activity ElementTree 1500000 (init 0)))))
       = message_queue (snd (check_activity ElementTree 1500000 (init 0)))"
    by (elim conjE)
  also have "\<dots> = [''<IdentifyReq />'']"
    by (simp add: first)
  finally have second: "message_queue (snd (check_activity ElementTree 2900000
                            (snd (check_activity ElementTree 1500000 (init 0)))))
       = [''<IdentifyReq />'']" .
  from a b first second show ?thesis by (intro conjI)
qed

subsection \<open>Recording\<close>

text \<open>
  C8. \<open>timecode\<close> is the constant \<open>00:00:00:00\<close>, and both confirmation callbacks hand that
  constant to the host, whatever the response and the object.
\<close>

theorem C8_timecode_is_constant:
  "timecode self = ''00:00:00:00''
   \<and> on_mvn_recording_started response self
       = self\<lparr>effects := effects self @ [Record_start_confirm ''00:00:00:00'']\<rparr>
   \<and> on_mvn_recording_stopped response self
       = self\<lparr>effects := effects self @ [Record_stop_confirm ''00:00:00:00'' None]\<rparr>"
  by (simp add: timecode_def on_mvn_recording_started_def on_mvn_recording_stopped_def emit_def)

lemma StartRecordingReq_element:
  "set_attrib ''Description'' description
     (set_attrib ''SessionName'' slate (Element ''StartRecordingReq''))
     = Elem ''StartRecordingReq'' [(''SessionName'', slate), (''Description'', description)] []"
  by (simp add: set_attrib_def Element_def)

text \<open>
  C9. \<open>record_start\<close> does not read its \<open>take\<close> argument: two calls that differ in it alone
  leave the same object. If the device is disconnected or the start trigger is off, the queue
  is as it was; otherwise one message is enqueued, the encoding of a \<open>StartRecordingReq\<close>
  element with the attributes \<open>SessionName\<close> and \<open>Description\<close> and no child.
\<close>

theorem C9_record_start_ignores_take:
  "record_start lib is_disconnected slate take1 description self
     = record_start lib is_disconnected slate take2 description self
   \<and> message_queue (record_start lib is_disconnected slate take1 description self)
       = (if is_disconnected \<or> \<not> trigger_start self then message_queue self
          else tostring lib
                 (Elem ''StartRecordingReq''
                    [(''SessionName'', slate), (''Description'', description)] [])
               # message_queue self)"
  by (simp add: record_start_def Let_def send_request_to_mvn_def send_string_to_mvn_def
        deque_appendleft_def LOGGER_def StartRecordingReq_element)

subsection \<open>Connecting\<close>

text \<open>
  C5 (as amended). \<open>connect_listener\<close> does not look at the socket the object holds. When the
  operating system opens and binds a socket and starts the thread, the object afterwards holds
  the new socket and the new thread, \<open>close_socket\<close> is cleared, \<open>last_activity\<close> is the
  clock's reading, an echo is awaited and one \<open>IdentifyReq\<close> has been enqueued, whether or
  not a socket was held before.
\<close>

theorem C5_connect_listener_always_connects:
  assumes "socket_socket os = Inr fd"
    and "socket_bind os = None"
    and "Thread_start os = None"
  shows "connect_listener lib os now self
           = (Returned,
              self\<lparr>message_queue :=
                     tostring lib (Element ''IdentifyReq'') # message_queue self,
                   socket := Some fd,
                   close_socket := False,
                   last_activity := now,
                   awaiting_echo_response := True,
                   mvn_connection_thread := Some (new_Thread os),
                   logged := logged self @ [(WARNING, XML_string [])],
                   effects := effects self
                     @ [Socket_opened fd, Socket_bound fd, Thread_started (new_Thread os)]\<rparr>)"
  using assms
  by (simp add: connect_listener_def Let_def send_identify_request_idle emit_def)

theorem C5_connect_listener_witness:
  "socket_socket (os_gives 2) = Inr 2
   \<and> socket_bind (os_gives 2) = None
   \<and> Thread_start (os_gives 2) = None
   \<and> socket connected_once = Some 1
   \<and> connect_listener ElementTree (os_gives 2) 7 connected_once
       = (Returned,
          connected_once
            \<lparr>message_queue := [''<IdentifyReq />'', ''<IdentifyReq />''],
             socket := Some 2,
             last_activity := 7,
             mvn_connection_thread := Some 2,
             logged := [(WARNING, XML_string []), (WARNING, XML_string [])],
             effects := [Socket_opened 1, Socket_bound 1, Thread_started 1,
                         Socket_opened 2, Socket_bound 2, Thread_started 2]\<rparr>)"
proof -
  have a: "socket_socket (os_gives 2) = Inr 2" by (simp add: os_gives_def)
  have b: "socket_bind (os_gives 2) = None" by (simp add: os_gives_def)
  have c: "Thread_start (os_gives 2) = None" by (simp add: os_gives_def)
  have d: "new_Thread (os_gives 2) = 2" by (simp add: os_gives_def)
  have m: "tostring ElementTree (Element ''IdentifyReq'') = ''<IdentifyReq />''"
    by (simp add: ElementTree_def Element_def)
  have s: "socket connected_once = Some 1" by (simp add: connected_once_eq)
  from C5_connect_listener_always_connects [OF a b c, of ElementTree 7 connected_once]
  have "connect_listener ElementTree (os_gives 2) 7 connected_once
       = (Returned,
          connected_once
            \<lparr>message_queue := [''<IdentifyReq />'', ''<IdentifyReq />''],
             socket := Some 2,
             last_activity := 7,
             mvn_connection_thread := Some 2,
             logged := [(WARNING, XML_string []), (WARNING, XML_string [])],
             effects := [Socket_opened 1, Socket_bound 1, Thread_started 1,
                         Socket_opened 2, Socket_bound 2, Thread_started 2]\<rparr>)"
    by (simp add: d m connected_once_eq init_def)
  with a b c s show ?thesis by (intro conjI)
qed

text \<open>
  C5 (as stated) fails: \<open>connect_listener\<close> on a connected device, one that holds socket 1
  and whose loop runs in thread 1, opens socket 2 and starts thread 2; the object holds the
  new handles, and a second \<open>IdentifyReq\<close> is in the queue.
\<close>

theorem C5_connect_not_noop_counterexample:
  "is_connected connected_once
   \<and> socket connected_once = Some 1
   \<and> mvn_connection_thread connected_once = Some 1
   \<and> snd (connect_listener ElementTree (os_gives 2) 7 connected_once) \<noteq> connected_once
   \<and> socket (snd (connect_listener ElementTree (os_gives 2) 7 connected_once)) = Some 2
   \<and> mvn_connection_thread (snd (connect_listener ElementTree (os_gives 2) 7 connected_once))
       = Some 2
   \<and> effects (snd (connect_listener ElementTree (os_gives 2) 7 connected_once))
       = effects connected_once @ [Socket_opened 2, Socket_bound 2, Thread_started 2]
   \<and> message_queue (snd (connect_listener ElementTree (os_gives 2) 7 connected_once))
       = ''<IdentifyReq />'' # message_queue connected_once"
  by (simp add: is_connected_def connected_once_eq os_gives_def connect_listener_def Let_def
        send_identify_request_def send_request_to_mvn_def send_string_to_mvn_def
        deque_appendleft_def LOGGER_def emit_def init_def ElementTree_def Element_def)

subsection \<open>The socket handle\<close>

lemma silent_io_simps:
  "flush_error (silent_io t2) = None"
  "sendto_error (silent_io t2) = None"
  "select_result (silent_io t2) = Inr False"
  "activity_now (silent_io t2) = t2"
  by (simp_all add: silent_io_def)

lemma send_and_receive_silent:
  assumes "flush_error io = None" and "sendto_error io = None"
    and "select_result io = Inr False"
  shows "socket (snd (send_and_receive lib io fd self)) = socket self"
    and "last_activity (snd (send_and_receive lib io fd self)) = last_activity self"
    and "fst (send_and_receive lib io fd self) = Returned"
  using assms
  by (cases "message_queue self = []";
      simp add: send_and_receive_def pop_message_empty pop_message_nonempty emit_def)+

text \<open>
  C7. The invariant breaks where the loop ends on the inactivity timeout. On a device that
  holds a socket, the iteration that gets no reply and reads the clock more than three
  seconds after the last activity raises the connection timeout; the \<open>except\<close> clause logs
  it and tells the host that the client has disconnected, and \<open>mvn_connection\<close> returns.
  The socket is neither closed nor forgotten: the object still holds the handle and
  \<open>is_connected\<close> is still true.
\<close>

theorem C7_timeout_leaves_socket_held:
  assumes "socket self = Some fd"
    and "flush_error io = None" and "sendto_error io = None"
    and "select_result io = Inr False"
    and "activity_now io - last_activity self > disconnect_timeout"
  shows "mvn_connection lib (io # ios) self
           = (True,
              except_handler (Exception ''Connection timeout'')
                (snd (send_and_receive lib io fd self)))
         \<and> effects (snd (mvn_connection lib (io # ios) self))
           = effects (snd (send_and_receive lib io fd self)) @ [Client_disconnected]
         \<and> socket (snd (mvn_connection lib (io # ios) self)) = Some fd
         \<and> is_connected (snd (mvn_connection lib (io # ios) self))"
proof -
  obtain out s1 where r: "send_and_receive lib io fd self = (out, s1)"
    by (cases "send_and_receive lib io fd self")
  from send_and_receive_silent [OF assms(2-4), of lib fd self] r assms(1)
  have s1: "out = Returned" "socket s1 = Some fd" "last_activity s1 = last_activity self"
    by simp_all
  from assms(5) s1 have "check_activity lib (activity_now io) s1
                           = (Raised (Exception ''Connection timeout''), s1)"
    by (simp add: check_activity_def Let_def)
  with r s1 have "loop_body lib io fd self
                    = (Loop_exit, except_handler (Exception ''Connection timeout'') s1)"
    by (simp add: loop_body_def)
  with assms(1) r s1 show ?thesis
    by (simp add: except_handler_def emit_def LOGGER_def is_connected_def)
qed

theorem C7_timeout_witness:
  "socket connected_once = Some 1
   \<and> flush_error (silent_io 3000001) = None
   \<and> sendto_error (silent_io 3000001) = None
   \<and> select_result (silent_io 3000001) = Inr False
   \<and> activity_now (silent_io 3000001) - last_activity connected_once > disconnect_timeout
   \<and> mvn_connection ElementTree [silent_io 3000001] connected_once
       = (True,
          connected_once
            \<lparr>message_queue := [],
             logged := [(WARNING, XML_string []),
                        (WARNING, Disconnecting_due_to (Exception ''Connection timeout''))],
             effects := [Socket_opened 1, Socket_bound 1, Thread_started 1,
                         Flushed 1, Sent 1 ''<IdentifyReq />'', Client_disconnected]\<rparr>)
   \<and> socket (snd (mvn_connection ElementTree [silent_io 3000001] connected_once)) = Some 1
   \<and> is_connected (snd (mvn_connection ElementTree [silent_io 3000001] connected_once))"
proof -
  have s: "socket connected_once = Some 1" by (simp add: connected_once_eq)
  have t: "activity_now (silent_io 3000001) - last_activity connected_once > disconnect_timeout"
    by (simp add: silent_io_simps connected_once_eq init_def disconnect_timeout_def)
  note timeout = C7_timeout_leaves_socket_held
    [OF s silent_io_simps(1-3) t, of ElementTree "[]"]
  from timeout have m: "mvn_connection ElementTree [silent_io 3000001] connected_once
       = (True,
          connected_once
            \<lparr>message_queue := [],
             logged := [(WARNING, XML_string []),
                        (WARNING, Disconnecting_due_to (Exception ''Connection timeout''))],
             effects := [Socket_opened 1, Socket_bound 1, Thread_started 1,
                         Flushed 1, Sent 1 ''<IdentifyReq />'', Client_disconnected]\<rparr>)"
    by (simp add: send_and_receive_def pop_message_def deque_pop_def silent_io_simps
          connected_once_eq init_def except_handler_def emit_def LOGGER_def)
  from timeout have h: "socket (snd (mvn_connection ElementTree [silent_io 3000001] connected_once))
                          = Some 1"
    by (elim conjE)
  from timeout have i: "is_connected (snd (mvn_connection ElementTree [silent_io 3000001]
                                             connected_once))"
    by (elim conjE)
  from s silent_io_simps(1-3) t m h i show ?thesis by (intro conjI)
qed

text \<open>
  The path of the requested shutdown, lines 167 to 171, does what the \<open>except\<close> clause leaves
  out: it closes the socket and forgets the handle.
\<close>

lemma shutdown_forgets_the_socket:
  assumes "socket self = Some fd"
    and "message_queue self = []"
    and "activity_now io - last_activity self \<le> ping_interval"
    and "close_socket self"
    and "shutdown_close_error io = None"
  shows "mvn_connection lib (io # ios) self
           = (True, self\<lparr>socket := None, effects := effects self @ [Socket_closed fd]\<rparr>)"
    and "\<not> is_connected (snd (mvn_connection lib (io # ios) self))"
  using assms
  by (simp_all add: loop_body_def send_and_receive_def pop_message_empty check_activity_def
        close_if_requested_def emit_def is_connected_def Let_def ping_interval_def
        disconnect_timeout_def)

end
